theory Spec2Isabelle
  imports Complex_Main
begin

section \<open>rasterioxyz: Pseudo-Mercator XYZ tiling of a georeferenced raster\<close>

text \<open>
  A shallow embedding of \<^verbatim>\<open>rasterioxyz/tile.py\<close> and \<^verbatim>\<open>rasterioxyz/_utils.py\<close>.
  Python floats are modelled as exact real numbers: the rounding of IEEE arithmetic is
  not part of the model. A float that is not a finite number (NaN, an infinity) and the
  result of a conversion that C leaves undefined are modelled as \<open>None\<close>.
  Python integers are \<open>int\<close>. The calls into rasterio that read, reproject or
  locate pixels are parameters of the model (the records \<open>DatasetReader\<close> and
  \<open>rasterio\<close>); \<^verbatim>\<open>transform.from_bounds\<close>, the numpy operations on buffers and the
  effects of \<^verbatim>\<open>pathlib\<close> on the file system are modelled.
\<close>

subsection \<open>Exceptions\<close>

datatype error =
    TypeError
  | ValueError
  | CRSError
  | IndexError
  | AttributeError
  | FileNotFoundError
  | FileExistsError
  | NotADirectoryError
  | RasterioError

subsection \<open>The dataclasses of \<^verbatim>\<open>_utils.py\<close>\<close>

text \<open>\<^verbatim>\<open>rasterio.Affine(a, b, c, d, e, f)\<close>; \<open>aff t i\<close> is \<^verbatim>\<open>t[i]\<close> for i in 0..5.\<close>

datatype Affine = Affine real real real real real real

fun aff :: "Affine \<Rightarrow> nat \<Rightarrow> real" where
  "aff (Affine a b c d e f) i =
     (if i = 0 then a else if i = 1 then b else if i = 2 then c
      else if i = 3 then d else if i = 4 then e else f)"

record Bounds =
  minx :: real
  miny :: real
  maxx :: real
  maxy :: real

record ImageProperties =
  transform :: Affine
  bounds :: Bounds

record Zoom =
  zoom :: int
  tile_dims :: real
  tile_indices :: "(int \<times> int) list"

subsection \<open>Pixel buffers\<close>

text \<open>
  A numpy dtype: unsigned and signed integers of a bit width, and floats.
  \<^verbatim>\<open>uint8\<close> is \<open>UInt 8\<close>.
\<close>

datatype dtype = UInt nat | SInt nat | Float nat

abbreviation uint8 :: dtype where
  "uint8 \<equiv> UInt 8"

text \<open>
  A sample is a finite number, or \<open>None\<close>: a NaN or an infinity in a float buffer, or
  the result of a conversion whose value C does not define.
\<close>

type_synonym sample = "real option"

text \<open>
  A 3-D \<^verbatim>\<open>numpy.ndarray\<close>, indexed \<^verbatim>\<open>[channel][row][column]\<close>. \<open>ma\<close> says that the
  buffer is a \<^verbatim>\<open>numpy.ma.MaskedArray\<close>, on which numpy's arithmetic is that of
  \<^verbatim>\<open>numpy.ma\<close>. The code builds its masked buffers with \<^verbatim>\<open>numpy.append\<close>, which returns
  a masked array without masked samples, and the rescaling to 8 bits is the only
  arithmetic it does on a buffer: the record holds the data of a masked buffer, not which
  of its samples the rescaling leaves masked.
\<close>

record ndarray =
  dtype :: dtype
  chans :: "sample list list list"
  ma :: bool

text \<open>A masked array as \<^verbatim>\<open>img.read(masked=True)\<close> returns it: the mask has the data's shape.\<close>

record masked_array =
  mdata :: "sample list list list"
  mask :: "bool list list list"

record 'w Tile =
  zoom :: int
  column :: int
  row :: int
  bounds :: Bounds
  transform :: Affine
  window :: 'w
  data :: ndarray

subsection \<open>What the code reads of rasterio\<close>

text \<open>\<^verbatim>\<open>Statistics(min, max, mean, std)\<close> of a band, as far as the code reads it.\<close>

record Statistics =
  smin :: real
  smax :: real

text \<open>
  The opened dataset. \<open>crs\<close> is the EPSG code, \<open>None\<close> for a dataset without one.
  \<open>read out_shape window resampling\<close> is
  \<^verbatim>\<open>img.read(out_shape=.., window=.., masked=True, boundless=True, resampling=..)\<close>.
\<close>

record ('p, 'w) DatasetReader =
  crs :: "int option"
  profile :: 'p
  count :: nat
  dtypes :: "dtype list"
  img_transform :: Affine
  img_bounds :: "real \<times> real \<times> real \<times> real"
  width :: nat
  height :: nat
  statistics :: "nat \<Rightarrow> Statistics"
  read :: "nat \<times> nat \<times> nat \<Rightarrow> 'w \<Rightarrow> nat \<Rightarrow> error + masked_array"

text \<open>
  The module-level functions of rasterio that the code calls.
  \<open>warp_reproject img bands dtype window destination dst_transform dst_alpha resampling\<close> is
  the first component of what \<^verbatim>\<open>warp.reproject\<close> returns.
\<close>

record ('p, 'w) rasterio =
  calculate_default_transform ::
    "int option \<Rightarrow> int \<Rightarrow> nat \<Rightarrow> nat \<Rightarrow> real \<times> real \<times> real \<times> real \<Rightarrow> Affine \<times> nat \<times> nat"
  windows_from_bounds :: "Bounds \<Rightarrow> Affine \<Rightarrow> 'w"
  warp_reproject ::
    "('p, 'w) DatasetReader \<Rightarrow> nat list \<Rightarrow> dtype \<Rightarrow> 'w \<Rightarrow> ndarray \<Rightarrow> Affine \<Rightarrow> nat \<Rightarrow> nat
       \<Rightarrow> error + ndarray"

text \<open>
  \<^verbatim>\<open>rasterio.transform.from_bounds(west, south, east, north, width, height)\<close>:
  \<^verbatim>\<open>Affine.translation(west, north) * Affine.scale((east - west) / width, (south - north) / height)\<close>.
\<close>

definition transform_from_bounds :: "real \<Rightarrow> real \<Rightarrow> real \<Rightarrow> real \<Rightarrow> real \<Rightarrow> real \<Rightarrow> Affine" where
  "transform_from_bounds west south east north w h =
     Affine ((east - west) / w) 0 west 0 ((south - north) / h) north"

subsection \<open>The \<^verbatim>\<open>Tiles\<close> object\<close>

text \<open>A Python sequence: \<^verbatim>\<open>==\<close> holds between two of the same kind with the same items.\<close>

datatype seqkind = ListSeq | TupleSeq | RangeSeq

type_synonym pyseq = "seqkind \<times> int list"

text \<open>
  The slots of \<^verbatim>\<open>Tiles\<close>. \<open>img_max\<close> and \<open>img_min\<close> are unset (\<open>None\<close>) when the source
  is \<^verbatim>\<open>uint8\<close>. \<open>tiles\<close> is the generator \<^verbatim>\<open>self._tile()\<close>: the tiles it has still to
  build, as the arguments \<open>(zoom, col, row, dims)\<close> of \<^verbatim>\<open>_build_tile\<close>.
\<close>

record ('p, 'w) Tiles =
  img :: "('p, 'w) DatasetReader"
  zooms :: pyseq
  pixels :: int
  resampling :: nat
  img_dtype :: dtype
  img_is_3857 :: bool
  img_properties :: ImageProperties
  tile_bands :: nat
  img_max :: "real option"
  img_min :: "real option"
  tiles :: "(int \<times> int \<times> int \<times> real) list"

text \<open>\<^verbatim>\<open>Tiles._origin\<close>\<close>

definition origin :: real where
  "origin = 20037508.342789244"

subsection \<open>\<^verbatim>\<open>Tiles._build_zoom\<close>\<close>

text \<open>\<^verbatim>\<open>range(a, b)\<close> and \<^verbatim>\<open>itertools.product(xs, ys)\<close>, the last index running fastest.\<close>

definition py_range :: "int \<Rightarrow> int \<Rightarrow> int list" where
  "py_range a b = [a..b - 1]"

fun itertools_product :: "'a list \<Rightarrow> 'b list \<Rightarrow> ('a \<times> 'b) list" where
  "itertools_product [] ys = []"
| "itertools_product (x # xs) ys = map (\<lambda>y. (x, y)) ys @ itertools_product xs ys"

text \<open>\<^verbatim>\<open>4 ** zoom\<close>: an integer for \<open>zoom \<ge> 0\<close>, a float below.\<close>

definition zoom_ntiles :: "int \<Rightarrow> real" where
  "zoom_ntiles z = (if 0 \<le> z then 4 ^ nat z else 1 / 4 ^ nat (- z))"

definition zoom_dims :: "int \<Rightarrow> real" where
  "zoom_dims z = sqrt (zoom_ntiles z)"

definition zoom_tile_dims :: "int \<Rightarrow> real" where
  "zoom_tile_dims z = (origin * 2) / zoom_dims z"

text \<open>The condition under which \<^verbatim>\<open>_build_zoom\<close> emits its \<^verbatim>\<open>TileWarning\<close>.\<close>

definition build_zoom_warns :: "('p, 'w) Tiles \<Rightarrow> int \<Rightarrow> bool" where
  "build_zoom_warns self z =
     (let tile_res = zoom_tile_dims z / real_of_int (pixels self)
      in tile_res < aff (ImageProperties.transform (img_properties self)) 0)"

text \<open>\<^verbatim>\<open>int(x // y)\<close> on floats.\<close>

definition floordiv :: "real \<Rightarrow> real \<Rightarrow> int" where
  "floordiv x y = \<lfloor>x / y\<rfloor>"

definition start_col :: "('p, 'w) Tiles \<Rightarrow> int \<Rightarrow> int" where
  "start_col self z =
     floordiv (minx (ImageProperties.bounds (img_properties self)) - - origin) (zoom_tile_dims z)"

definition end_col :: "('p, 'w) Tiles \<Rightarrow> int \<Rightarrow> int" where
  "end_col self z =
     floordiv (maxx (ImageProperties.bounds (img_properties self)) - - origin) (zoom_tile_dims z)"

definition start_row :: "('p, 'w) Tiles \<Rightarrow> int \<Rightarrow> int" where
  "start_row self z =
     floordiv \<bar>maxy (ImageProperties.bounds (img_properties self)) - origin\<bar> (zoom_tile_dims z)"

definition end_row :: "('p, 'w) Tiles \<Rightarrow> int \<Rightarrow> int" where
  "end_row self z =
     floordiv \<bar>miny (ImageProperties.bounds (img_properties self)) - origin\<bar> (zoom_tile_dims z)"

definition build_zoom :: "('p, 'w) Tiles \<Rightarrow> int \<Rightarrow> Zoom" where
  "build_zoom self z =
     \<lparr>Zoom.zoom = z,
      tile_dims = zoom_tile_dims z,
      tile_indices =
        itertools_product (py_range (start_col self z) (end_col self z + 1))
                          (py_range (start_row self z) (end_row self z + 1))\<rparr>"

subsection \<open>numpy casts and \<^verbatim>\<open>Tiles._array_to_uint8\<close>\<close>

text \<open>Truncation toward zero, as the C conversion of a float to an integer.\<close>

definition trunc :: "real \<Rightarrow> int" where
  "trunc x = (if 0 \<le> x then \<lfloor>x\<rfloor> else \<lceil>x\<rceil>)"

text \<open>The integers a dtype holds, and the two's-complement wrap into them.\<close>

fun in_range :: "dtype \<Rightarrow> int \<Rightarrow> bool" where
  "in_range (UInt w) i = (0 \<le> i \<and> i < 2 ^ w)"
| "in_range (SInt w) i = (- (2 ^ (w - 1)) \<le> i \<and> i < 2 ^ (w - 1))"
| "in_range (Float w) i = True"

fun wrap :: "dtype \<Rightarrow> int \<Rightarrow> int" where
  "wrap (UInt w) i = i mod 2 ^ w"
| "wrap (SInt w) i = (i + 2 ^ (w - 1)) mod 2 ^ w - 2 ^ (w - 1)"
| "wrap (Float w) i = i"

text \<open>
  \<open>cast src dst x\<close>: the value \<open>x\<close> of a buffer of dtype \<open>src\<close> converted to \<open>dst\<close>, as
  \<^verbatim>\<open>astype\<close> and an assignment into a buffer of dtype \<open>dst\<close> do it. To a float: the value
  itself. From a float to an integer: truncation, undefined outside the target's range and
  on NaN and the infinities. Between integers: wrap-around.
\<close>

fun cast :: "dtype \<Rightarrow> dtype \<Rightarrow> sample \<Rightarrow> sample" where
  "cast src (Float w) x = x"
| "cast (Float v) dst x =
     (case x of None \<Rightarrow> None
      | Some r \<Rightarrow> if in_range dst (trunc r) then Some (real_of_int (trunc r)) else None)"
| "cast src dst x =
     (case x of None \<Rightarrow> None
      | Some r \<Rightarrow> Some (real_of_int (wrap dst \<lfloor>r\<rfloor>)))"

text \<open>Float arithmetic of an array with a Python scalar: a division by zero gives no finite number.\<close>

definition fsub :: "sample \<Rightarrow> real \<Rightarrow> sample" where
  "fsub x y = (case x of None \<Rightarrow> None | Some r \<Rightarrow> Some (r - y))"

definition fdiv :: "sample \<Rightarrow> real \<Rightarrow> sample" where
  "fdiv x y = (case x of None \<Rightarrow> None | Some r \<Rightarrow> if y = 0 then None else Some (r / y))"

definition fmul :: "sample \<Rightarrow> real \<Rightarrow> sample" where
  "fmul x y = (case x of None \<Rightarrow> None | Some r \<Rightarrow> Some (r * y))"

definition fadd :: "sample \<Rightarrow> real \<Rightarrow> sample" where
  "fadd x y = (case x of None \<Rightarrow> None | Some r \<Rightarrow> Some (r + y))"

text \<open>
  The right-hand side of the assignment in \<^verbatim>\<open>_array_to_uint8\<close> for one sample:
  \<^verbatim>\<open>((v - img_min) / (img_max - img_min)) * (255 - 0) + 0\<close>.
\<close>

definition rescale :: "real \<Rightarrow> real \<Rightarrow> sample \<Rightarrow> sample" where
  "rescale mn mx v = fadd (fmul (fdiv (fsub v mn) (mx - mn)) (255 - 0)) 0"

text \<open>
  The arithmetic of \<^verbatim>\<open>numpy.ma\<close> with a Python scalar. A sample of a masked array is
  its data and whether it is masked. The division masks a sample whose quotient is not a
  finite number and one outside its domain, \<open>\<bar>a\<bar> * tiny \<ge> \<bar>b\<bar>\<close> with \<open>tiny\<close> the
  smallest normal double (so every sample when \<open>b = 0\<close>), and gives a masked sample its
  dividend as data, without a warning. Subtraction, multiplication and addition mask
  nothing, and leave the data of a masked sample as it is.
\<close>

definition tiny :: real where
  "tiny = 1 / 2 ^ 1022"

type_synonym msample = "sample \<times> bool"

definition ma_sub :: "msample \<Rightarrow> real \<Rightarrow> msample" where
  "ma_sub x y = (case x of (a, m) \<Rightarrow> (if m then a else fsub a y, m))"

definition ma_div :: "msample \<Rightarrow> real \<Rightarrow> msample" where
  "ma_div x y =
     (case x of (a, m) \<Rightarrow>
        let r = fdiv a y;
            outside = (case a of None \<Rightarrow> False | Some q \<Rightarrow> \<bar>q\<bar> * tiny \<ge> \<bar>y\<bar>);
            m' = (r = None \<or> outside \<or> m)
        in (if m' then a else r, m'))"

definition ma_mul :: "msample \<Rightarrow> real \<Rightarrow> msample" where
  "ma_mul x y = (case x of (a, m) \<Rightarrow> (if m then a else fmul a y, m))"

definition ma_add :: "msample \<Rightarrow> real \<Rightarrow> msample" where
  "ma_add x y = (case x of (a, m) \<Rightarrow> (if m then a else fadd a y, m))"

text \<open>
  The right-hand side of the assignment for one sample of a masked buffer, which enters
  unmasked.
\<close>

definition ma_rescale :: "real \<Rightarrow> real \<Rightarrow> sample \<Rightarrow> msample" where
  "ma_rescale mn mx v = ma_add (ma_mul (ma_div (ma_sub (v, False) mn) (mx - mn)) (255 - 0)) 0"

text \<open>A function applied to every sample of a list of channels.\<close>

definition map3 :: "('a \<Rightarrow> 'b) \<Rightarrow> 'a list list list \<Rightarrow> 'b list list list" where
  "map3 f = map (map (map f))"

text \<open>The dtype of the array \<^verbatim>\<open>tile_array[:-1] - x\<close>: float64 for an integer buffer.\<close>

fun float_of :: "dtype \<Rightarrow> dtype" where
  "float_of (Float w) = Float w"
| "float_of d = Float 64"

text \<open>
  \<^verbatim>\<open>tile_array[:-1] = ...\<close> stores the rescaled samples in the buffer, so in its dtype
  (of a masked sample it stores the data); the last channel stays as it is;
  \<^verbatim>\<open>astype(uint8)\<close> then converts every channel and keeps the kind of the buffer.
  \<^verbatim>\<open>self._img_min\<close> is an AttributeError when the slot is unset.
\<close>

definition array_to_uint8 :: "('p, 'w) Tiles \<Rightarrow> ndarray \<Rightarrow> error + ndarray" where
  "array_to_uint8 self tile_array =
     (case img_min self of None \<Rightarrow> Inl AttributeError
      | Some mn \<Rightarrow>
     (case img_max self of None \<Rightarrow> Inl AttributeError
      | Some mx \<Rightarrow>
          let d = dtype tile_array;
              cs = chans tile_array;
              scaled = (\<lambda>v. if ma tile_array then fst (ma_rescale mn mx v)
                             else rescale mn mx v);
              stored = map3 (\<lambda>v. cast (float_of d) d (scaled v)) (butlast cs)
                       @ (if cs = [] then [] else [last cs])
          in Inr \<lparr>dtype = uint8, chans = map3 (cast d uint8) stored, ma = ma tile_array\<rparr>))"

subsection \<open>\<^verbatim>\<open>Tiles._read_tile_data\<close> and \<^verbatim>\<open>Tiles._reproject_tile_data\<close>\<close>

text \<open>\<^verbatim>\<open>numpy.zeros((n, h, w), dtype=d)\<close>\<close>

definition zeros :: "nat \<times> nat \<times> nat \<Rightarrow> dtype \<Rightarrow> ndarray" where
  "zeros shape d =
     (case shape of (n, h, w) \<Rightarrow>
        \<lparr>dtype = d, chans = replicate n (replicate h (replicate w (Some 0))), ma = False\<rparr>)"

text \<open>
  The alpha channel is 0 where the first band is masked, 255 elsewhere, converted to the
  source dtype. \<^verbatim>\<open>tile_array[0]\<close> is an IndexError on an array without bands. The shape
  errors of \<^verbatim>\<open>reshape\<close> and \<^verbatim>\<open>append\<close> are not modelled: \<^verbatim>\<open>read\<close> returns the
  \<^verbatim>\<open>out_shape\<close> it was asked for. \<^verbatim>\<open>numpy.append\<close> of the masked array read and the
  alpha channel is a masked array that holds the data of both and masks nothing.
\<close>

definition read_tile_data :: "('p, 'w) Tiles \<Rightarrow> 'w \<Rightarrow> error + ndarray" where
  "read_tile_data self tile_window =
     (case read (img self) (tile_bands self, nat (pixels self), nat (pixels self))
             tile_window (resampling self) of
        Inl e \<Rightarrow> Inl e
      | Inr tile_array \<Rightarrow>
          (case mask tile_array of
             [] \<Rightarrow> Inl IndexError
           | m0 # _ \<Rightarrow>
               let tile_alpha =
                     map (map (\<lambda>m. cast (SInt 64) (img_dtype self)
                                     (Some (if m then 0 else 255)))) m0
               in Inr \<lparr>dtype = img_dtype self, chans = mdata tile_array @ [tile_alpha],
                       ma = True\<rparr>))"

definition reproject_tile_data ::
    "('p, 'w) rasterio \<Rightarrow> ('p, 'w) Tiles \<Rightarrow> 'w \<Rightarrow> Affine \<Rightarrow> error + ndarray" where
  "reproject_tile_data lib self tile_window tile_transform =
     warp_reproject lib (img self) [1..<tile_bands self + 1] (img_dtype self) tile_window
       (zeros (tile_bands self + 1, nat (pixels self), nat (pixels self)) (img_dtype self))
       tile_transform (tile_bands self + 1) (resampling self)"

subsection \<open>\<^verbatim>\<open>Tiles._build_tile\<close>\<close>

definition tile_bounds :: "int \<Rightarrow> int \<Rightarrow> real \<Rightarrow> Bounds" where
  "tile_bounds col rw dims =
     (let minx = origin * - 1 + real_of_int col * dims;
          maxx = minx + dims;
          maxy = origin - real_of_int rw * dims;
          miny = maxy - dims
      in \<lparr>minx = minx, miny = miny, maxx = maxx, maxy = maxy\<rparr>)"

definition build_tile ::
    "('p, 'w) rasterio \<Rightarrow> ('p, 'w) Tiles \<Rightarrow> int \<Rightarrow> int \<Rightarrow> int \<Rightarrow> real \<Rightarrow> error + 'w Tile" where
  "build_tile lib self z col rw dims =
     (let bounds = tile_bounds col rw dims;
          affine = transform_from_bounds (minx bounds) (miny bounds) (maxx bounds) (maxy bounds)
                     (real_of_int (pixels self)) (real_of_int (pixels self));
          window = windows_from_bounds lib bounds
                     (ImageProperties.transform (img_properties self))
      in case (if img_is_3857 self then read_tile_data self window
               else reproject_tile_data lib self window affine) of
           Inl e \<Rightarrow> Inl e
         | Inr tile_data \<Rightarrow>
             (case (if dtype tile_data \<noteq> uint8 then array_to_uint8 self tile_data
                    else Inr tile_data) of
                Inl e \<Rightarrow> Inl e
              | Inr tile_data' \<Rightarrow>
                  Inr \<lparr>zoom = z, column = col, row = rw, bounds = bounds,
                       transform = affine, window = window, data = tile_data'\<rparr>))"

subsection \<open>\<^verbatim>\<open>Tiles._tile\<close>\<close>

text \<open>
  The generator walks the zooms and, within a zoom, the tile indices. \<open>tile_jobs\<close> is the
  sequence of \<^verbatim>\<open>_build_tile\<close> calls it has to make, in order; \<open>gen_next\<close> is \<^verbatim>\<open>next\<close> on
  the generator: \<open>None\<close> for StopIteration, otherwise the tile (or the exception raised in
  the generator, which finishes it) and the calls left.
\<close>

definition tile_jobs :: "('p, 'w) Tiles \<Rightarrow> (int \<times> int \<times> int \<times> real) list" where
  "tile_jobs self =
     concat (map (\<lambda>z. let zoom_properties = build_zoom self z
                       in map (\<lambda>(col, rw). (z, col, rw, tile_dims zoom_properties))
                            (tile_indices zoom_properties))
                 (snd (zooms self)))"

definition gen_next ::
    "('p, 'w) rasterio \<Rightarrow> ('p, 'w) Tiles \<Rightarrow> (int \<times> int \<times> int \<times> real) list
       \<Rightarrow> ((error + 'w Tile) \<times> (int \<times> int \<times> int \<times> real) list) option" where
  "gen_next lib self jobs =
     (case jobs of
        [] \<Rightarrow> None
      | (z, col, rw, dims) # rest \<Rightarrow>
          (case build_tile lib self z col rw dims of
             Inl e \<Rightarrow> Some (Inl e, [])
           | Inr tile \<Rightarrow> Some (Inr tile, rest)))"

subsection \<open>\<^verbatim>\<open>Tiles.__init__\<close>\<close>

text \<open>\<^verbatim>\<open>Tiles._valid_resampling\<close>\<close>

definition valid_resampling :: "(string \<times> nat) list" where
  "valid_resampling =
     [(''nearest'', 0), (''bilinear'', 1), (''cubic'', 2), (''cubic_spline'', 3),
      (''lanczos'', 4), (''average'', 5), (''mode'', 6), (''gauss'', 7), (''max'', 8),
      (''min'', 9), (''med'', 10), (''q1'', 11), (''q3'', 12), (''sum'', 13), (''rms'', 14)]"

definition get_mercator_properties ::
    "('p, 'w) rasterio \<Rightarrow> ('p, 'w) DatasetReader \<Rightarrow> bool \<Rightarrow> ImageProperties" where
  "get_mercator_properties lib src_img is_3857 =
     (if is_3857 then
        (case img_bounds src_img of (west, south, east, north) \<Rightarrow>
           \<lparr>ImageProperties.transform = img_transform src_img,
            bounds = \<lparr>minx = west, miny = south, maxx = east, maxy = north\<rparr>\<rparr>)
      else
        (case calculate_default_transform lib (crs src_img) 3857 (width src_img) (height src_img)
                (img_bounds src_img) of
           (t, w, h) \<Rightarrow>
             let minx = aff t 2;
                 maxx = minx + aff t 0 * real w;
                 maxy = aff t 5;
                 miny = maxy + aff t 4 * real h
             in \<lparr>ImageProperties.transform = t,
                 bounds = \<lparr>minx = minx, miny = miny, maxx = maxx, maxy = maxy\<rparr>\<rparr>))"

text \<open>\<^verbatim>\<open>max\<close> and \<^verbatim>\<open>min\<close> of a list: a ValueError on the empty list.\<close>

fun py_max :: "real list \<Rightarrow> error + real" where
  "py_max [] = Inl ValueError"
| "py_max (x # xs) = Inr (fold max xs x)"

fun py_min :: "real list \<Rightarrow> error + real" where
  "py_min [] = Inl ValueError"
| "py_min (x # xs) = Inr (fold min xs x)"

definition get_image_statistics ::
    "('p, 'w) DatasetReader \<Rightarrow> nat \<Rightarrow> error + real \<times> real" where
  "get_image_statistics src_img bands =
     (let band_statistics = map (statistics src_img) [1..<bands + 1]
      in case py_max (map smax band_statistics) of
           Inl e \<Rightarrow> Inl e
         | Inr mx \<Rightarrow>
             (case py_min (map smin band_statistics) of
                Inl e \<Rightarrow> Inl e
              | Inr mn \<Rightarrow> Inr (mx, mn)))"

text \<open>
  The constructor. The \<^verbatim>\<open>isinstance\<close> checks are the types of the arguments; the
  warnings are not modelled. The generator is created last, over the finished object.
\<close>

definition Tiles_init ::
    "('p, 'w) rasterio \<Rightarrow> ('p, 'w) DatasetReader \<Rightarrow> pyseq \<Rightarrow> int \<Rightarrow> string
       \<Rightarrow> error + ('p, 'w) Tiles" where
  "Tiles_init lib src_img zs px rs =
     (if crs src_img = None then Inl CRSError
      else if \<not> list_all (\<lambda>z. z \<le> 25 \<and> z \<ge> 0) (snd zs) then Inl ValueError
      else if px \<notin> set [256, 512] then Inl ValueError
      else (case map_of valid_resampling rs of
        None \<Rightarrow> Inl ValueError
      | Some code \<Rightarrow>
         (let is_3857 = (crs src_img = Some 3857);
              props = get_mercator_properties lib src_img is_3857;
              bands = (if count src_img \<le> 3 then count src_img else 3)
          in (case dtypes src_img of
               [] \<Rightarrow> Inl IndexError
             | d # _ \<Rightarrow>
                 (case (if d \<noteq> uint8
                        then (case get_image_statistics src_img bands of
                                Inl e \<Rightarrow> Inl e
                              | Inr (mx, mn) \<Rightarrow> Inr (Some mx, Some mn))
                        else Inr (None, None)) of
                    Inl e \<Rightarrow> Inl e
                  | Inr (mx, mn) \<Rightarrow>
                     (let self = \<lparr>img = src_img, zooms = zs, pixels = px, resampling = code,
                                  img_dtype = d, img_is_3857 = is_3857, img_properties = props,
                                  tile_bands = bands, img_max = mx, img_min = mn, tiles = []\<rparr>
                      in Inr (self\<lparr>tiles := tile_jobs self\<rparr>)))))))"

subsection \<open>\<^verbatim>\<open>Tiles.__eq__\<close>\<close>



subsection \<open>The file system and \<^verbatim>\<open>Tiles.write\<close>\<close>

text \<open>
  A path is the list of its components. The file system is the set of its directories
  and the image files written, each with the arguments of \<^verbatim>\<open>rasterio.open\<close> and the data.
\<close>

type_synonym path = "string list"

record image_file =
  fdriver :: string
  fwidth :: int
  fheight :: int
  fcount :: nat
  fdata :: ndarray

record filesystem =
  dirs :: "path set"
  files :: "path \<rightharpoonup> image_file"

text \<open>\<^verbatim>\<open>str(i)\<close> for an integer.\<close>

fun str_nat :: "nat \<Rightarrow> string" where
  "str_nat n =
     (if n < 10 then [''0123456789'' ! n]
      else str_nat (n div 10) @ [''0123456789'' ! (n mod 10)])"

declare str_nat.simps [simp del]

definition str_int :: "int \<Rightarrow> string" where
  "str_int i = (if i < 0 then CHR ''-'' # str_nat (nat (- i)) else str_nat (nat i))"

text \<open>\<^verbatim>\<open>str.upper\<close> on ASCII.\<close>

definition upper_char :: "char \<Rightarrow> char" where
  "upper_char c =
     (let n = (of_char c :: nat) in if 97 \<le> n \<and> n \<le> 122 then char_of (n - 32) else c)"

definition upper :: "string \<Rightarrow> string" where
  "upper s = map upper_char s"

text \<open>
  \<^verbatim>\<open>p.mkdir(parents=True, exist_ok=True)\<close>, walking down from the root: a component that is
  a directory is kept, one that is missing is created, and one that is a file raises
  (FileExistsError when it is the path itself, NotADirectoryError when it is a parent).
  The directories created before the exception stay.
\<close>

fun mkdir_from :: "path \<Rightarrow> string list \<Rightarrow> filesystem \<Rightarrow> error option \<times> filesystem" where
  "mkdir_from cur [] fs = (None, fs)"
| "mkdir_from cur (c # cs) fs =
     (let q = cur @ [c]
      in if q \<in> dirs fs then mkdir_from q cs fs
         else if q \<in> dom (files fs)
           then (Some (if cs = [] then FileExistsError else NotADirectoryError), fs)
         else mkdir_from q cs (fs\<lparr>dirs := insert q (dirs fs)\<rparr>))"

definition mkdir :: "path \<Rightarrow> filesystem \<Rightarrow> error option \<times> filesystem" where
  "mkdir p fs = mkdir_from [] p fs"

text \<open>
  \<^verbatim>\<open>a.mean()\<close> of a 2-D array: not a number on an empty array, and not known when a sample
  is undefined.
\<close>

definition mean :: "sample list list \<Rightarrow> sample" where
  "mean a =
     (let xs = concat a
      in if xs = [] \<or> None \<in> set xs then None
         else Some (sum_list (map the xs) / real (length xs)))"

text \<open>
  The body of the loop of \<^verbatim>\<open>write\<close> for one tile. \<^verbatim>\<open>tile.data[-1]\<close> is an IndexError
  on data without channels. Writing the image is modelled as storing it under its path.
\<close>

definition write_tile ::
    "path \<Rightarrow> string \<Rightarrow> int \<Rightarrow> 'w Tile \<Rightarrow> filesystem \<Rightarrow> error option \<times> filesystem" where
  "write_tile out_dir driver px tile fs =
     (let img_dir = out_dir @ [str_int (Tile.zoom tile), str_int (column tile)]
      in case mkdir img_dir fs of
           (Some e, fs') \<Rightarrow> (Some e, fs')
         | (None, fs') \<Rightarrow>
             let img_path = img_dir @ [str_int (row tile) @ ''.'' @ driver]
             in if chans (data tile) = [] then (Some IndexError, fs')
                else if mean (last (chans (data tile))) = Some 0 then (None, fs')
                else (None, fs'\<lparr>files := (files fs')(img_path \<mapsto>
                        \<lparr>fdriver = driver, fwidth = px, fheight = px,
                         fcount = length (chans (data tile)), fdata = data tile\<rparr>)\<rparr>))"

text \<open>
  \<^verbatim>\<open>for tile in self.tiles\<close>: the loop pulls tiles until the generator stops or an exception
  is raised. It returns the exception, if any, what the generator has left, and the file
  system.
\<close>

function write_loop ::
    "('p, 'w) rasterio \<Rightarrow> ('p, 'w) Tiles \<Rightarrow> path \<Rightarrow> string
       \<Rightarrow> (int \<times> int \<times> int \<times> real) list \<Rightarrow> filesystem
       \<Rightarrow> error option \<times> (int \<times> int \<times> int \<times> real) list \<times> filesystem" where
  "write_loop lib self out_dir driver jobs fs =
     (case gen_next lib self jobs of
        None \<Rightarrow> (None, jobs, fs)
      | Some (Inl e, jobs') \<Rightarrow> (Some e, jobs', fs)
      | Some (Inr tile, jobs') \<Rightarrow>
          (case write_tile out_dir driver (pixels self) tile fs of
             (Some e, fs') \<Rightarrow> (Some e, jobs', fs')
           | (None, fs') \<Rightarrow> write_loop lib self out_dir driver jobs' fs'))"
  by pat_completeness auto
termination
  by (relation "measure (\<lambda>(lib, self, out_dir, driver, jobs, fs). length jobs)")
     (auto simp: gen_next_def split: list.splits sum.splits)

declare write_loop.simps [simp del]

text \<open>The \<^verbatim>\<open>driver\<close> argument: a string, a \<^verbatim>\<open>Path\<close>, or any other object.\<close>

datatype pyarg = Str string | PathArg path | OtherArg

text \<open>
  \<^verbatim>\<open>write\<close> returns the exception raised, if any, the object with its generator advanced,
  and the file system. A \<^verbatim>\<open>Path\<close> passes the \<^verbatim>\<open>isinstance\<close> check and has no \<^verbatim>\<open>upper\<close>.
\<close>

definition Tiles_write ::
    "('p, 'w) rasterio \<Rightarrow> ('p, 'w) Tiles \<Rightarrow> filesystem \<Rightarrow> path \<Rightarrow> pyarg
       \<Rightarrow> error option \<times> ('p, 'w) Tiles \<times> filesystem" where
  "Tiles_write lib self fs directory driver =
     (case driver of
        OtherArg \<Rightarrow> (Some TypeError, self, fs)
      | PathArg p \<Rightarrow> (Some AttributeError, self, fs)
      | Str d \<Rightarrow>
          if upper d \<notin> set [''PNG'', ''JPEG''] then (Some ValueError, self, fs)
          else if \<not> (directory \<in> dirs fs \<or> directory \<in> dom (files fs)) \<or> \<not> directory \<in> dirs fs
            then (Some FileNotFoundError, self, fs)
          else (case write_loop lib self directory d (tiles self) fs of
                  (e, jobs', fs') \<Rightarrow> (e, self\<lparr>tiles := jobs'\<rparr>, fs')))"

subsection \<open>The rescaling as the specification words it\<close>


subsection \<open>Concrete datasets\<close>

text \<open>
  A stand-in for rasterio in which a window is the rectangle it covers, in map units.
  Reading a window gives the constant \<open>v\<close> in every band, masked everywhere when the
  window does not overlap the dataset's bounds and nowhere when it does; reprojection
  returns its destination buffer.
\<close>

definition example_read ::
    "real \<times> real \<times> real \<times> real \<Rightarrow> real \<Rightarrow> nat \<times> nat \<times> nat \<Rightarrow> Bounds \<Rightarrow> nat
       \<Rightarrow> error + masked_array" where
  "example_read b v shape win rs =
     (case b of (west, south, east, north) \<Rightarrow>
      case shape of (n, h, w) \<Rightarrow>
        let outside = \<not> (minx win < east \<and> west < maxx win \<and> miny win < north \<and> south < maxy win)
        in Inr \<lparr>mdata = replicate n (replicate h (replicate w (Some v))),
                mask = replicate n (replicate h (replicate w outside))\<rparr>)"

definition example_image ::
    "real \<times> real \<times> real \<times> real \<Rightarrow> dtype \<Rightarrow> real \<Rightarrow> real \<Rightarrow> (nat, Bounds) DatasetReader" where
  "example_image b d lo hi =
     \<lparr>crs = Some 3857, profile = 0, count = 3, dtypes = [d, d, d],
      img_transform =
        (case b of (west, south, east, north) \<Rightarrow>
           transform_from_bounds west south east north 256 256),
      img_bounds = b, width = 256, height = 256,
      statistics = (\<lambda>band. \<lparr>smin = lo, smax = hi\<rparr>),
      read = example_read b lo\<rparr>"

definition example_rasterio :: "(nat, Bounds) rasterio" where
  "example_rasterio =
     \<lparr>calculate_default_transform =
        (\<lambda>src dst w h b. case b of (west, south, east, north) \<Rightarrow>
           (transform_from_bounds west south east north (real w) (real h), w, h)),
      windows_from_bounds = (\<lambda>b t. b),
      warp_reproject = (\<lambda>src bands d win dest t alpha rs. Inr dest)\<rparr>"

text \<open>The object the constructor returns for a dataset, zooms given as a list, 256 pixels, nearest.\<close>

definition example_tiles :: "(nat, Bounds) DatasetReader \<Rightarrow> int list \<Rightarrow> (nat, Bounds) Tiles" where
  "example_tiles src_img zs =
     projr (Tiles_init example_rasterio src_img (ListSeq, zs) 256 ''nearest'')"

text \<open>An 8-bit raster with the bounds of the test suite's EPSG:3857 fixture.\<close>

definition fixture_image :: "(nat, Bounds) DatasetReader" where
  "fixture_image = example_image (- 244781, 6545838, - 191809, 6599779) uint8 0 255"

text \<open>An 8-bit raster that reaches north of the Mercator square.\<close>

definition north_image :: "(nat, Bounds) DatasetReader" where
  "north_image = example_image (0, 20000000, 1000, 110000000) uint8 0 255"

text \<open>An 8-bit raster whose bounds are the Mercator square itself.\<close>

definition world_image :: "(nat, Bounds) DatasetReader" where
  "world_image = example_image (- origin, - origin, origin, origin) uint8 0 255"


definition flat_image :: "(nat, Bounds) DatasetReader" where
  "flat_image = example_image (- origin, - origin, origin, origin) (Float 32) 5 5"

text \<open>
  A tile buffer of three bands of 256 by 256 samples, all \<open>v\<close>, and an alpha channel
  that is \<open>a\<close> everywhere.
\<close>

definition constant_buffer :: "dtype \<Rightarrow> real \<Rightarrow> real \<Rightarrow> ndarray" where
  "constant_buffer d v a =
     \<lparr>dtype = d,
      chans = replicate 3 (replicate 256 (replicate 256 (Some v)))
              @ [replicate 256 (replicate 256 (Some a))],
      ma = False\<rparr>"

text \<open>The same buffer as a masked array, as \<^verbatim>\<open>_read_tile_data\<close> builds it.\<close>

definition masked_buffer :: "dtype \<Rightarrow> real \<Rightarrow> real \<Rightarrow> ndarray" where
  "masked_buffer d v a = (constant_buffer d v a)\<lparr>ma := True\<rparr>"

text \<open>
  A stand-in for rasterio whose reprojection fills its destination: \<open>v\<close> in every band,
  \<open>a\<close> in the alpha channel. Its default transform is that of the Mercator rectangle
  between the latitudes of 85 degrees.
\<close>

definition filling_rasterio :: "real \<Rightarrow> real \<Rightarrow> (nat, Bounds) rasterio" where
  "filling_rasterio v a =
     \<lparr>calculate_default_transform =
        (\<lambda>src dst w h b.
           (transform_from_bounds (- 20037508) (- 19971868) 20037508 19971868 (real w) (real h),
            w, h)),
      windows_from_bounds = (\<lambda>b t. b),
      warp_reproject = (\<lambda>src bands d win dest t alpha rs. Inr (constant_buffer (dtype dest) v a))\<rparr>"

text \<open>A float raster in EPSG:4326 whose values are all 5, and the object built for it.\<close>

definition flat_geographic_image :: "(nat, Bounds) DatasetReader" where
  "flat_geographic_image = (example_image (- 180, - 85, 180, 85) (Float 32) 5 5)\<lparr>crs := Some 4326\<rparr>"

definition flat_geographic_tiles :: "(nat, Bounds) Tiles" where
  "flat_geographic_tiles =
     projr (Tiles_init (filling_rasterio 5 255) flat_geographic_image (ListSeq, [0]) 256 ''nearest'')"

text \<open>A file system that holds the directory \<^verbatim>\<open>out\<close> and nothing else.\<close>

definition example_fs :: filesystem where
  "example_fs = \<lparr>dirs = {[''out'']}, files = Map.empty\<rparr>"

section \<open>Properties\<close>

subsection \<open>Ranges, products and the tile size\<close>

lemma origin_pos: "0 < origin"
  by (simp add: origin_def)

lemma zoom_dims_pow: "0 \<le> z \<Longrightarrow> zoom_dims z = 2 ^ nat z"
proof -
  assume "0 \<le> z"
  then have "zoom_dims z = sqrt (4 ^ nat z)"
    by (simp add: zoom_dims_def zoom_ntiles_def)
  also have "\<dots> = (sqrt 4) ^ nat z"
    by (rule real_sqrt_power)
  also have "\<dots> = 2 ^ nat z"
    by simp
  finally show ?thesis .
qed

lemma zoom_tile_dims_pos: "0 < zoom_tile_dims z"
  by (simp add: zoom_tile_dims_def zoom_dims_def zoom_ntiles_def origin_pos)

lemma zoom_tile_dims_0: "zoom_tile_dims 0 = 2 * origin"
  by (simp add: zoom_tile_dims_def zoom_dims_pow)

lemma zoom_tile_dims_10: "zoom_tile_dims 10 = 2 * origin / 1024"
  by (simp add: zoom_tile_dims_def zoom_dims_pow)

lemma length_py_range: "length (py_range a b) = nat (b - a)"
  by (simp add: py_range_def)

lemma py_range_nth: "i < nat (b - a) \<Longrightarrow> py_range a b ! i = a + int i"
  by (simp add: py_range_def)

lemma length_itertools_product: "length (itertools_product xs ys) = length xs * length ys"
  by (induction xs) simp_all

lemma set_itertools_product: "set (itertools_product xs ys) = set xs \<times> set ys"
  by (induction xs) auto

lemma itertools_product_concat:
  "itertools_product xs ys = concat (map (\<lambda>x. map (\<lambda>y. (x, y)) ys) xs)"
  by (induction xs) simp_all

lemma itertools_product_nth:
  "k < length xs * length ys \<Longrightarrow>
   itertools_product xs ys ! k = (xs ! (k div length ys), ys ! (k mod length ys))"
proof (induction xs arbitrary: k)
  case Nil
  then show ?case by simp
next
  case (Cons x xs)
  show ?case
  proof (cases "k < length ys")
    case True
    then show ?thesis by (simp add: nth_append)
  next
    case False
    then have ge: "length ys \<le> k" by simp
    from Cons.prems have pos: "0 < length ys" by (cases "length ys") simp_all
    from ge Cons.prems have "k - length ys < length xs * length ys" by simp
    from Cons.IH[OF this] ge pos show ?thesis
      by (simp add: nth_append False le_div_geq le_mod_geq)
  qed
qed

subsection \<open>The concrete datasets\<close>

lemma example_bounds:
  "list_all (\<lambda>z. z \<le> 25 \<and> z \<ge> 0) zs \<Longrightarrow>
   ImageProperties.bounds (img_properties (example_tiles (example_image (w, s, e, n) d lo hi) zs))
     = \<lparr>minx = w, miny = s, maxx = e, maxy = n\<rparr>"
  by (simp add: example_tiles_def Tiles_init_def example_image_def valid_resampling_def
        get_mercator_properties_def get_image_statistics_def Let_def upt_rec)

lemma example_minmax:
  "list_all (\<lambda>z. z \<le> 25 \<and> z \<ge> 0) zs \<Longrightarrow> d \<noteq> uint8 \<Longrightarrow>
   img_min (example_tiles (example_image b d lo hi) zs) = Some lo \<and>
   img_max (example_tiles (example_image b d lo hi) zs) = Some hi"
  by (simp add: example_tiles_def Tiles_init_def example_image_def valid_resampling_def
        get_mercator_properties_def get_image_statistics_def Let_def upt_rec split: prod.splits)

lemma fixture_indices:
  "start_col (example_tiles fixture_image [10]) 10 = 505"
  "end_col (example_tiles fixture_image [10]) 10 = 507"
  "start_row (example_tiles fixture_image [10]) 10 = 343"
  "end_row (example_tiles fixture_image [10]) 10 = 344"
  by (simp_all add: start_col_def end_col_def start_row_def end_row_def fixture_image_def
        example_bounds zoom_tile_dims_10 floordiv_def origin_def)

lemma north_indices:
  "start_col (example_tiles north_image [0]) 0 = 0"
  "end_col (example_tiles north_image [0]) 0 = 0"
  "start_row (example_tiles north_image [0]) 0 = 2"
  "end_row (example_tiles north_image [0]) 0 = 0"
  by (simp_all add: start_col_def end_col_def start_row_def end_row_def north_image_def
        example_bounds zoom_tile_dims_0 floordiv_def origin_def)

lemma world_indices:
  "start_col (example_tiles world_image [0]) 0 = 0"
  "end_col (example_tiles world_image [0]) 0 = 1"
  "start_row (example_tiles world_image [0]) 0 = 0"
  "end_row (example_tiles world_image [0]) 0 = 1"
  by (simp_all add: start_col_def end_col_def start_row_def end_row_def world_image_def
        example_bounds zoom_tile_dims_0 floordiv_def origin_def)

subsection \<open>The plan of a zoom level\<close>

text \<open>
  Claim C1, as the code has it. For a zoom level between 0 and 25 the planner's tile size
  is \<open>2 * origin / sqrt (4 ^ z)\<close>, its column and row limits are the floors the
  specification gives, and the number of planned indices is the product of the lengths of
  the two ranges, \<open>max 0 (end_col - start_col + 1) * max 0 (end_row - start_row + 1)\<close>.
  That is \<open>(end_col - start_col + 1) * (end_row - start_row + 1)\<close> when the bounds are
  ordered and the image does not reach north of the origin.
\<close>

theorem build_zoom_plan:
  fixes self :: "('p, 'w) Tiles"
  assumes "0 \<le> z" and "z \<le> 25"
  shows "let b = ImageProperties.bounds (img_properties self);
             td = 2 * origin / sqrt (4 ^ nat z);
             sc = start_col self z; ec = end_col self z;
             sr = start_row self z; er = end_row self z;
             n = length (tile_indices (build_zoom self z))
         in tile_dims (build_zoom self z) = td
          \<and> sc = \<lfloor>(minx b + origin) / td\<rfloor> \<and> ec = \<lfloor>(maxx b + origin) / td\<rfloor>
          \<and> sr = \<lfloor>\<bar>maxy b - origin\<bar> / td\<rfloor> \<and> er = \<lfloor>\<bar>miny b - origin\<bar> / td\<rfloor>
          \<and> n = nat (ec - sc + 1) * nat (er - sr + 1)
          \<and> (minx b \<le> maxx b \<and> miny b \<le> maxy b \<and> maxy b \<le> origin
               \<longrightarrow> int n = (ec - sc + 1) * (er - sr + 1))"
proof -
  define b where "b = ImageProperties.bounds (img_properties self)"
  define td where "td = 2 * origin / sqrt (4 ^ nat z)"
  have td: "zoom_tile_dims z = td"
    using assms by (simp add: zoom_tile_dims_def zoom_dims_def zoom_ntiles_def td_def)
  have tdpos: "0 < td"
    using zoom_tile_dims_pos[of z] td by simp
  have n: "length (tile_indices (build_zoom self z)) =
           nat (end_col self z - start_col self z + 1) * nat (end_row self z - start_row self z + 1)"
    by (simp add: build_zoom_def length_itertools_product length_py_range algebra_simps)
  have cols: "minx b \<le> maxx b \<Longrightarrow> start_col self z \<le> end_col self z"
    unfolding start_col_def end_col_def floordiv_def b_def td
    using tdpos by (intro floor_mono divide_right_mono) simp_all
  have rows: "miny b \<le> maxy b \<Longrightarrow> maxy b \<le> origin \<Longrightarrow> start_row self z \<le> end_row self z"
    unfolding start_row_def end_row_def floordiv_def b_def td
    using tdpos by (intro floor_mono divide_right_mono) simp_all
  have ord: "minx b \<le> maxx b \<and> miny b \<le> maxy b \<and> maxy b \<le> origin \<longrightarrow>
      int (length (tile_indices (build_zoom self z))) =
        (end_col self z - start_col self z + 1) * (end_row self z - start_row self z + 1)"
    using cols rows by (auto simp: n)
  show ?thesis
    unfolding Let_def b_def[symmetric] td_def[symmetric]
    using ord n
    by (simp add: build_zoom_def td start_col_def end_col_def start_row_def end_row_def
          floordiv_def b_def)
qed

text \<open>
  The fixture at zoom 10: its bounds are ordered and south of the origin, and the plan has
  three columns of two rows.
\<close>

theorem build_zoom_plan_witness:
  "(0::int) \<le> 10 \<and> (10::int) \<le> 25
   \<and> (- 244781 :: real) \<le> - 191809 \<and> (6545838 :: real) \<le> 6599779 \<and> 6599779 \<le> origin
   \<and> int (length (tile_indices (build_zoom (example_tiles fixture_image [10]) 10))) = 3 * 2"
  using build_zoom_plan [of 10 "example_tiles fixture_image [10]"]
  by (simp add: Let_def fixture_indices fixture_image_def example_bounds origin_def)

text \<open>
  An image from y = 20000000 to y = 110000000 at zoom 0: the row range runs from 2 down
  to 0 and is empty, so nothing is planned, while the product of the specification is -1.
\<close>

theorem build_zoom_plan_counterexample:
  "int (length (tile_indices (build_zoom (example_tiles north_image [0]) 0)))
     \<noteq> (end_col (example_tiles north_image [0]) 0
          - start_col (example_tiles north_image [0]) 0 + 1)
       * (end_row (example_tiles north_image [0]) 0
          - start_row (example_tiles north_image [0]) 0 + 1)"
  by (simp add: build_zoom_def north_indices length_itertools_product length_py_range)

lemma world_plan:
  "tile_indices (build_zoom (example_tiles world_image [0]) 0)
     = [(0, 0), (0, 1), (1, 0), (1, 1)]"
  by (simp add: build_zoom_def world_indices py_range_def upto.simps)

text \<open>
  Claim C5 at the raster whose bounds are the Mercator square: zoom 0 plans four index
  pairs, three of them outside the single tile of the XYZ scheme.
\<close>

theorem zoom0_world_indices:
  "length (tile_indices (build_zoom (example_tiles world_image [0]) 0)) = 4
   \<and> tile_indices (build_zoom (example_tiles world_image [0]) 0)
       = [(0, 0), (0, 1), (1, 0), (1, 1)]"
  by (simp add: world_plan)

text \<open>
  Claim C8. The planned indices are the pairs of a column from \<open>[start_col..end_col]\<close> and
  a row from \<open>[start_row..end_row]\<close>, both ends included, column by column with the rows
  of a column in order: the index at position \<open>k\<close> has column \<open>start_col + k div h\<close> and
  row \<open>start_row + k mod h\<close>, \<open>h\<close> being the number of rows.
\<close>

theorem tile_indices_column_major:
  fixes self :: "('p, 'w) Tiles"
  shows "let sc = start_col self z; ec = end_col self z;
             sr = start_row self z; er = end_row self z;
             idx = tile_indices (build_zoom self z);
             h = nat (er - sr + 1)
         in idx = concat (map (\<lambda>c. map (\<lambda>r. (c, r)) [sr..er]) [sc..ec])
          \<and> set idx = {sc..ec} \<times> {sr..er}
          \<and> (\<forall>k < length idx. idx ! k = (sc + int (k div h), sr + int (k mod h)))"
proof -
  define sc where "sc = start_col self z"
  define ec where "ec = end_col self z"
  define sr where "sr = start_row self z"
  define er where "er = end_row self z"
  note defs = sc_def ec_def sr_def er_def
  define h where "h = nat (er - sr + 1)"
  define idx where "idx = tile_indices (build_zoom self z)"
  have idx: "idx = itertools_product (py_range sc (ec + 1)) (py_range sr (er + 1))"
    by (simp add: idx_def build_zoom_def defs)
  have h: "length (py_range sr (er + 1)) = h"
    by (simp add: length_py_range h_def algebra_simps)
  have 1: "idx = concat (map (\<lambda>c. map (\<lambda>r. (c, r)) [sr..er]) [sc..ec])"
    by (simp add: idx itertools_product_concat py_range_def)
  have 2: "set idx = {sc..ec} \<times> {sr..er}"
    by (simp add: idx set_itertools_product py_range_def)
  have 3: "idx ! k = (sc + int (k div h), sr + int (k mod h))" if k: "k < length idx" for k
  proof -
    from k have kl: "k < length (py_range sc (ec + 1)) * h"
      by (simp add: idx length_itertools_product h)
    then have hpos: "0 < h" by (cases h) simp_all
    from kl have d: "k div h < nat (ec + 1 - sc)"
      by (simp add: length_py_range less_mult_imp_div_less)
    from hpos have m: "k mod h < nat (er + 1 - sr)"
      by (simp add: h_def algebra_simps)
    from kl have "idx ! k = (py_range sc (ec + 1) ! (k div h), py_range sr (er + 1) ! (k mod h))"
      unfolding idx using itertools_product_nth[of k "py_range sc (ec + 1)" "py_range sr (er + 1)"]
      by (simp add: h)
    with d m show ?thesis by (simp add: py_range_nth)
  qed
  from 1 2 3 show ?thesis
    unfolding Let_def sc_def[symmetric] ec_def[symmetric] sr_def[symmetric] er_def[symmetric] h_def[symmetric] idx_def[symmetric] by blast
qed

text \<open>The fixture at zoom 10: position 3 is the second row of the second column.\<close>

theorem tile_indices_column_major_witness:
  "3 < length (tile_indices (build_zoom (example_tiles fixture_image [10]) 10))
   \<and> tile_indices (build_zoom (example_tiles fixture_image [10]) 10) ! 3 = (506, 344)"
  using tile_indices_column_major [of "example_tiles fixture_image [10]" 10]
  by (simp add: Let_def fixture_indices build_zoom_def length_itertools_product length_py_range)

lemma tile_jobs_tiles_update [simp]: "tile_jobs (self\<lparr>tiles := js\<rparr>) = tile_jobs self"
  by (simp add: tile_jobs_def build_zoom_def start_col_def end_col_def start_row_def end_row_def)

lemma read_tile_data_tiles_update [simp]:
  "read_tile_data (self\<lparr>tiles := js\<rparr>) win = read_tile_data self win"
  by (simp add: read_tile_data_def Let_def split: sum.splits list.splits)

lemma reproject_tile_data_tiles_update [simp]:
  "reproject_tile_data lib (self\<lparr>tiles := js\<rparr>) win t = reproject_tile_data lib self win t"
  by (simp add: reproject_tile_data_def)

lemma array_to_uint8_tiles_update [simp]:
  "array_to_uint8 (self\<lparr>tiles := js\<rparr>) a = array_to_uint8 self a"
  by (simp add: array_to_uint8_def split: option.splits)

lemma build_tile_tiles_update [simp]:
  "build_tile lib (self\<lparr>tiles := js\<rparr>) z col rw dims = build_tile lib self z col rw dims"
  by (simp add: build_tile_def Let_def cong: if_cong sum.case_cong)

lemma example_fields:
  assumes "list_all (\<lambda>z. z \<le> 25 \<and> z \<ge> 0) zs"
  shows "img (example_tiles (example_image b d lo hi) zs) = example_image b d lo hi"
    and "zooms (example_tiles (example_image b d lo hi) zs) = (ListSeq, zs)"
    and "pixels (example_tiles (example_image b d lo hi) zs) = 256"
    and "resampling (example_tiles (example_image b d lo hi) zs) = 0"
    and "img_dtype (example_tiles (example_image b d lo hi) zs) = d"
    and "img_is_3857 (example_tiles (example_image b d lo hi) zs) = True"
    and "tile_bands (example_tiles (example_image b d lo hi) zs) = 3"
    and "img_min (example_tiles (example_image b d lo hi) zs) = (if d = uint8 then None else Some lo)"
    and "img_max (example_tiles (example_image b d lo hi) zs) = (if d = uint8 then None else Some hi)"
  using assms
  by (simp_all add: example_tiles_def Tiles_init_def example_image_def valid_resampling_def
        get_image_statistics_def Let_def upt_rec split: prod.splits)

lemma tile_jobs_cong:
  "img_properties a = img_properties b \<Longrightarrow> zooms a = zooms b \<Longrightarrow> tile_jobs a = tile_jobs b"
  by (simp add: tile_jobs_def build_zoom_def start_col_def end_col_def start_row_def end_row_def)

lemma init_tiles:
  "Tiles_init lib src_img zs px rs = Inr self \<Longrightarrow> tiles self = tile_jobs self"
  by (auto simp: Tiles_init_def Let_def split: if_splits option.splits list.splits sum.splits
        prod.splits intro!: tile_jobs_cong)

lemma example_init:
  assumes "list_all (\<lambda>z. z \<le> 25 \<and> z \<ge> 0) zs"
  shows "Tiles_init example_rasterio (example_image b d lo hi) (ListSeq, zs) 256 ''nearest''
           = Inr (example_tiles (example_image b d lo hi) zs)"
  using assms
  by (simp add: example_tiles_def Tiles_init_def example_image_def valid_resampling_def
        get_image_statistics_def Let_def upt_rec split: prod.splits)

subsection \<open>The tiles\<close>

text \<open>
  Claim C2. A tile built at \<open>(zoom, column, row)\<close> with edge \<open>dims\<close> has the bounds
  \<open>minx = - origin + column * dims\<close>, \<open>maxx = minx + dims\<close>, \<open>maxy = origin - row * dims\<close>,
  \<open>miny = maxy - dims\<close>, and its transform is \<^verbatim>\<open>from_bounds\<close> of these bounds for a grid
  of \<open>pixels\<close> by \<open>pixels\<close>: scale \<open>dims / pixels\<close> in x and \<open>- dims / pixels\<close> in y, origin
  at \<open>(minx, maxy)\<close>.
\<close>

theorem build_tile_bounds_transform:
  assumes "build_tile lib self z col rw dims = Inr t"
  shows "let b = Tile.bounds t; P = real_of_int (pixels self)
         in minx b = - origin + real_of_int col * dims
          \<and> maxx b = minx b + dims
          \<and> maxy b = origin - real_of_int rw * dims
          \<and> miny b = maxy b - dims
          \<and> Tile.transform t = transform_from_bounds (minx b) (miny b) (maxx b) (maxy b) P P
          \<and> Tile.transform t = Affine (dims / P) 0 (minx b) 0 (- dims / P) (maxy b)
          \<and> Tile.zoom t = z \<and> column t = col \<and> row t = rw"
  using assms
  by (auto simp: build_tile_def Let_def tile_bounds_def transform_from_bounds_def
      split: sum.splits if_splits)

lemma world_overlap:
  "(minx (tile_bounds c r (2 * origin)) < origin
      \<and> - origin < maxx (tile_bounds c r (2 * origin))
      \<and> miny (tile_bounds c r (2 * origin)) < origin
      \<and> - origin < maxy (tile_bounds c r (2 * origin))) = (c = 0 \<and> r = 0)"
proof -
  define x where "x = real_of_int c * (2 * origin)"
  define y where "y = real_of_int r * (2 * origin)"
  have pos: "0 < origin"
    by (rule origin_pos)
  have f: "minx (tile_bounds c r (2 * origin)) = - origin + x"
    "maxx (tile_bounds c r (2 * origin)) = - origin + x + 2 * origin"
    "maxy (tile_bounds c r (2 * origin)) = origin - y"
    "miny (tile_bounds c r (2 * origin)) = origin - y - 2 * origin"
    by (simp_all add: tile_bounds_def Let_def x_def y_def)
  have up: "2 * origin \<le> real_of_int k * (2 * origin)" if "1 \<le> k" for k
    using mult_right_mono[of 1 "real_of_int k" "2 * origin"] that pos by simp
  have down: "real_of_int k * (2 * origin) \<le> - (2 * origin)" if "k \<le> - 1" for k
    using mult_right_mono[of "real_of_int k" "- 1" "2 * origin"] that pos by simp
  have xc: "1 \<le> c \<Longrightarrow> 2 * origin \<le> x" "c \<le> - 1 \<Longrightarrow> x \<le> - (2 * origin)" "c = 0 \<Longrightarrow> x = 0"
    using up[of c] down[of c] by (simp_all add: x_def)
  have yr: "1 \<le> r \<Longrightarrow> 2 * origin \<le> y" "r \<le> - 1 \<Longrightarrow> y \<le> - (2 * origin)" "r = 0 \<Longrightarrow> y = 0"
    using up[of r] down[of r] by (simp_all add: y_def)
  consider "c = 0 \<and> r = 0" | "1 \<le> c" | "c \<le> - 1" | "1 \<le> r" | "r \<le> - 1"
    by linarith
  then show ?thesis
  proof cases
    case 1
    with xc(3) yr(3) have "x = 0" "y = 0" by simp_all
    with 1 pos show ?thesis unfolding f by simp
  next
    case 2
    with xc(1) have "\<not> - origin + x < origin" "c \<noteq> 0" by linarith+
    then show ?thesis unfolding f by blast
  next
    case 3
    with xc(2) have "\<not> - origin < - origin + x + 2 * origin" "c \<noteq> 0" by linarith+
    then show ?thesis unfolding f by blast
  next
    case 4
    with yr(1) have "\<not> - origin < origin - y" "r \<noteq> 0" by linarith+
    then show ?thesis unfolding f by blast
  next
    case 5
    with yr(2) have "\<not> origin - y - 2 * origin < origin" "r \<noteq> 0" by linarith+
    then show ?thesis unfolding f by blast
  qed
qed

lemma replicate_3: "replicate 3 x = [x, x, x]"
  by (simp add: numeral_3_eq_3)

lemma world_read:
  "example_read (- origin, - origin, origin, origin) v (n, h, w) (tile_bounds c r (2 * origin)) rs
     = Inr \<lparr>mdata = replicate n (replicate h (replicate w (Some v))),
            mask = replicate n (replicate h (replicate w (\<not> (c = 0 \<and> r = 0))))\<rparr>"
  unfolding example_read_def prod.case Let_def world_overlap ..

lemma world_bounds:
  "ImageProperties.bounds (img_properties (example_tiles world_image [0]))
     = \<lparr>minx = - origin, miny = - origin, maxx = origin, maxy = origin\<rparr>"
  by (simp add: world_image_def example_bounds)

lemma world_build_tile:
  "build_tile example_rasterio (example_tiles world_image [0]) 0 c r (2 * origin)
    = Inr \<lparr>zoom = 0, column = c, row = r, bounds = tile_bounds c r (2 * origin),
          transform = transform_from_bounds (minx (tile_bounds c r (2 * origin)))
            (miny (tile_bounds c r (2 * origin))) (maxx (tile_bounds c r (2 * origin)))
            (maxy (tile_bounds c r (2 * origin))) 256 256,
          window = tile_bounds c r (2 * origin),
          data = \<lparr>dtype = uint8,
                  chans = replicate 3 (replicate 256 (replicate 256 (Some 0)))
                    @ [replicate 256 (replicate 256
                         (Some (if c = 0 \<and> r = 0 then 255 else 0)))],
                  ma = True\<rparr>\<rparr>"
proof -
  have fields: "img (example_tiles world_image [0]) = world_image"
    "pixels (example_tiles world_image [0]) = 256"
    "resampling (example_tiles world_image [0]) = 0"
    "img_dtype (example_tiles world_image [0]) = uint8"
    "img_is_3857 (example_tiles world_image [0])"
    "tile_bands (example_tiles world_image [0]) = 3"
    by (simp_all add: world_image_def example_fields)
  have rd: "read world_image (3, 256, 256) (tile_bounds c r (2 * origin)) 0
      = Inr \<lparr>mdata = replicate 3 (replicate 256 (replicate 256 (Some 0))),
             mask = replicate 3 (replicate 256 (replicate 256 (\<not> (c = 0 \<and> r = 0))))\<rparr>"
    by (simp add: world_image_def example_image_def world_read)
  show ?thesis
    by (simp add: build_tile_def fields Let_def read_tile_data_def example_rasterio_def rd
          replicate_3)
qed

lemma world_pixels: "pixels (example_tiles world_image [0]) = 256"
  by (simp add: world_image_def example_fields)

text \<open>The tile (0, 0, 0) of the world raster covers the Mercator square.\<close>

theorem build_tile_bounds_transform_witness:
  "build_tile example_rasterio (example_tiles world_image [0]) 0 0 0 (2 * origin)
     = Inr (projr (build_tile example_rasterio (example_tiles world_image [0]) 0 0 0 (2 * origin)))
   \<and> minx (Tile.bounds (projr (build_tile example_rasterio (example_tiles world_image [0])
         0 0 0 (2 * origin)))) = - origin
   \<and> maxx (Tile.bounds (projr (build_tile example_rasterio (example_tiles world_image [0])
         0 0 0 (2 * origin)))) = origin
   \<and> Tile.transform (projr (build_tile example_rasterio (example_tiles world_image [0]) 0 0 0
         (2 * origin)))
       = Affine (2 * origin / 256) 0 (- origin) 0 (- (2 * origin) / 256) origin"
proof -
  have ok: "build_tile example_rasterio (example_tiles world_image [0]) 0 0 0 (2 * origin)
     = Inr (projr (build_tile example_rasterio (example_tiles world_image [0]) 0 0 0 (2 * origin)))"
    by (simp add: world_build_tile)
  from build_tile_bounds_transform [OF ok] ok show ?thesis
    by (simp add: Let_def world_pixels transform_from_bounds_def)
qed


lemma length_map3 [simp]: "length (map3 f xs) = length xs"
  by (simp add: map3_def)





lemma world_zooms: "zooms (example_tiles world_image [0]) = (ListSeq, [0])"
  by (simp add: world_image_def example_fields)

lemma world_tiles:
  "tiles (example_tiles world_image [0])
     = [(0, 0, 0, 2 * origin), (0, 0, 1, 2 * origin), (0, 1, 0, 2 * origin),
        (0, 1, 1, 2 * origin)]"
proof -
  have "tiles (example_tiles world_image [0]) = tile_jobs (example_tiles world_image [0])"
    using init_tiles[OF example_init[of "[0]"]] by (simp add: world_image_def)
  also have "\<dots> = [(0, 0, 0, 2 * origin), (0, 0, 1, 2 * origin), (0, 1, 0, 2 * origin),
        (0, 1, 1, 2 * origin)]"
    using world_plan
    by (simp add: tile_jobs_def world_zooms build_zoom_def zoom_tile_dims_0)
  finally show ?thesis .
qed





subsection \<open>The rescaling to 8 bits\<close>



lemma rescale_degenerate: "rescale m m v = None"
  by (cases v) (simp_all add: rescale_def fsub_def fdiv_def fmul_def fadd_def)





lemma ma_rescale_degenerate: "ma_rescale m m v = (fsub v m, True)"
  by (cases v)
     (simp_all add: ma_rescale_def ma_add_def ma_mul_def ma_div_def ma_sub_def fsub_def fdiv_def
        Let_def)



lemma trunc_of_int [simp]: "trunc (real_of_int n) = n"
  by (simp add: trunc_def)








lemma array_to_uint8_chans:
  assumes "img_min self = Some mn" "img_max self = Some mx"
  shows "array_to_uint8 self arr
     = Inr \<lparr>dtype = uint8,
            chans = map3 (\<lambda>v. cast (dtype arr) uint8
                            (cast (float_of (dtype arr)) (dtype arr)
                               (if ma arr then fst (ma_rescale mn mx v) else rescale mn mx v)))
                      (butlast (chans arr))
                    @ (if chans arr = [] then []
                       else [map (map (cast (dtype arr) uint8)) (last (chans arr))]),
            ma = ma arr\<rparr>"
  using assms by (simp add: array_to_uint8_def Let_def map3_def)









lemma cast_None [simp]: "cast a b None = None"
  by (cases a; cases b) simp_all


lemma flat_fields:
  "img_min (example_tiles flat_image [0]) = Some 5"
  "img_max (example_tiles flat_image [0]) = Some 5"
  by (simp_all add: flat_image_def example_fields)






lemma trunc_zero [simp]: "trunc 0 = 0"
  by (simp add: trunc_def)

lemma cast_zero: "cast d uint8 (cast (float_of d) d (Some 0)) = Some 0"
  by (cases d) simp_all

lemma flat_read:
  "read_tile_data (example_tiles flat_image [0]) (tile_bounds 0 0 (2 * origin))
     = Inr (masked_buffer (Float 32) 5 255)"
proof -
  have fields: "img (example_tiles flat_image [0]) = flat_image"
    "pixels (example_tiles flat_image [0]) = 256"
    "resampling (example_tiles flat_image [0]) = 0"
    "img_dtype (example_tiles flat_image [0]) = Float 32"
    "tile_bands (example_tiles flat_image [0]) = 3"
    by (simp_all add: flat_image_def example_fields)
  have rd: "read flat_image (3, 256, 256) (tile_bounds 0 0 (2 * origin)) 0
      = Inr \<lparr>mdata = replicate 3 (replicate 256 (replicate 256 (Some 5))),
             mask = replicate 3 (replicate 256 (replicate 256 False))\<rparr>"
    using world_read[of 5 3 256 256 0 0 0] by (simp add: flat_image_def example_image_def)
  show ?thesis
    by (simp add: read_tile_data_def fields rd replicate_3 masked_buffer_def constant_buffer_def)
qed

lemma flat_uint8:
  "array_to_uint8 (example_tiles flat_image [0]) (masked_buffer (Float 32) 5 255)
     = Inr (masked_buffer uint8 0 255)"
  by (simp add: array_to_uint8_chans[OF flat_fields] masked_buffer_def constant_buffer_def
        map3_def ma_rescale_degenerate fsub_def trunc_def)

lemma flat_build_tile:
  "build_tile example_rasterio (example_tiles flat_image [0]) 0 0 0 (2 * origin)
    = Inr \<lparr>zoom = 0, column = 0, row = 0, bounds = tile_bounds 0 0 (2 * origin),
          transform = transform_from_bounds (minx (tile_bounds 0 0 (2 * origin)))
            (miny (tile_bounds 0 0 (2 * origin))) (maxx (tile_bounds 0 0 (2 * origin)))
            (maxy (tile_bounds 0 0 (2 * origin))) 256 256,
          window = tile_bounds 0 0 (2 * origin),
          data = masked_buffer uint8 0 255\<rparr>"
proof -
  have fields: "pixels (example_tiles flat_image [0]) = 256"
    "img_is_3857 (example_tiles flat_image [0])"
    by (simp_all add: flat_image_def example_fields)
  have win: "windows_from_bounds example_rasterio b t = b" for b t
    by (simp add: example_rasterio_def)
  have d: "dtype (masked_buffer (Float 32) 5 255) \<noteq> uint8"
    by (simp add: masked_buffer_def constant_buffer_def)
  show ?thesis
    by (simp add: build_tile_def Let_def fields win flat_read d flat_uint8)
qed

lemma flat_geographic_init:
  "Tiles_init (filling_rasterio 5 255) flat_geographic_image (ListSeq, [0]) 256 ''nearest''
     = Inr flat_geographic_tiles"
  by (simp add: flat_geographic_tiles_def flat_geographic_image_def Tiles_init_def
        example_image_def valid_resampling_def get_image_statistics_def Let_def upt_rec
        split: prod.splits)

lemma flat_geographic_fields:
  "img_min flat_geographic_tiles = Some 5"
  "img_max flat_geographic_tiles = Some 5"
  "img_dtype flat_geographic_tiles = Float 32"
  "img_is_3857 flat_geographic_tiles = False"
  "tile_bands flat_geographic_tiles = 3"
  "pixels flat_geographic_tiles = 256"
  by (simp_all add: flat_geographic_tiles_def flat_geographic_image_def Tiles_init_def
        example_image_def valid_resampling_def get_image_statistics_def Let_def upt_rec
        split: prod.splits)

lemma flat_geographic_reproject:
  "reproject_tile_data (filling_rasterio 5 255) flat_geographic_tiles win t
     = Inr (constant_buffer (Float 32) 5 255)"
  by (simp add: reproject_tile_data_def filling_rasterio_def zeros_def flat_geographic_fields)

lemma flat_geographic_uint8:
  "array_to_uint8 flat_geographic_tiles (constant_buffer (Float 32) 5 255)
     = Inr \<lparr>dtype = uint8,
            chans = replicate 3 (replicate 256 (replicate 256 None))
                    @ [replicate 256 (replicate 256 (Some 255))],
            ma = False\<rparr>"
  by (simp add: array_to_uint8_chans[OF flat_geographic_fields(1,2)] constant_buffer_def
        map3_def rescale_degenerate trunc_def)

lemma flat_geographic_build_tile:
  "build_tile (filling_rasterio 5 255) flat_geographic_tiles 0 0 0 (2 * origin)
    = Inr \<lparr>zoom = 0, column = 0, row = 0, bounds = tile_bounds 0 0 (2 * origin),
          transform = transform_from_bounds (minx (tile_bounds 0 0 (2 * origin)))
            (miny (tile_bounds 0 0 (2 * origin))) (maxx (tile_bounds 0 0 (2 * origin)))
            (maxy (tile_bounds 0 0 (2 * origin))) 256 256,
          window = tile_bounds 0 0 (2 * origin),
          data = \<lparr>dtype = uint8,
                  chans = replicate 3 (replicate 256 (replicate 256 None))
                          @ [replicate 256 (replicate 256 (Some 255))],
                  ma = False\<rparr>\<rparr>"
proof -
  have win: "windows_from_bounds (filling_rasterio 5 255) b t = b" for b t
    by (simp add: filling_rasterio_def)
  have d: "dtype (constant_buffer (Float 32) 5 255) \<noteq> uint8"
    by (simp add: constant_buffer_def)
  show ?thesis
    by (simp add: build_tile_def Let_def flat_geographic_fields win flat_geographic_reproject d
          flat_geographic_uint8)
qed

text \<open>
  Claim C6, as the code has it. When \<open>img_max = img_min\<close> the code has no fallback of its
  own, and \<^verbatim>\<open>_array_to_uint8\<close> raises nothing. What it returns depends on the kind of the
  buffer. On a masked array, which is what \<^verbatim>\<open>_read_tile_data\<close> builds for a source in
  EPSG:3857, numpy masks every sample of the division by zero and keeps its dividend: a
  sample \<open>v\<close> of a channel other than the last becomes the conversion to \<^verbatim>\<open>uint8\<close> of
  \<open>v - img_min\<close> as the buffer stores it, which is 0 for a sample equal to \<open>img_min\<close>. On a
  plain array, which is what \<^verbatim>\<open>_reproject_tile_data\<close> passes for any other source, every
  such sample is the conversion to \<^verbatim>\<open>uint8\<close> of a NaN or an infinity, which has no
  defined value. The last channel is only converted.
\<close>

theorem array_to_uint8_degenerate:
  assumes "img_min self = Some m" and "img_max self = Some m"
  shows "array_to_uint8 self arr
     = Inr \<lparr>dtype = uint8,
            chans = map3 (\<lambda>v. if ma arr
                              then cast (dtype arr) uint8
                                     (cast (float_of (dtype arr)) (dtype arr) (fsub v m))
                              else None)
                      (butlast (chans arr))
                    @ (if chans arr = [] then []
                       else [map (map (cast (dtype arr) uint8)) (last (chans arr))]),
            ma = ma arr\<rparr>
     \<and> ma_rescale m m v = (fsub v m, True)
     \<and> cast (dtype arr) uint8 (cast (float_of (dtype arr)) (dtype arr) (fsub (Some m) m)) = Some 0"
proof -
  have "(\<lambda>v. cast (dtype arr) uint8 (cast (float_of (dtype arr)) (dtype arr)
               (if ma arr then fst (ma_rescale m m v) else rescale m m v)))
      = (\<lambda>v. if ma arr
              then cast (dtype arr) uint8 (cast (float_of (dtype arr)) (dtype arr) (fsub v m))
              else None)"
    by (rule ext) (simp add: ma_rescale_degenerate rescale_degenerate)
  then show ?thesis
    by (simp add: array_to_uint8_chans[OF assms] ma_rescale_degenerate fsub_def cast_zero)
qed

text \<open>
  A source in EPSG:3857 whose values are all 5: the buffer read for the tile (0, 0, 0) is a
  masked array of fives with alpha 255, and its three bands are returned as zeros.
\<close>

theorem array_to_uint8_degenerate_witness:
  "img_min (example_tiles flat_image [0]) = Some 5
   \<and> img_max (example_tiles flat_image [0]) = Some 5
   \<and> read_tile_data (example_tiles flat_image [0]) (tile_bounds 0 0 (2 * origin))
     = Inr (masked_buffer (Float 32) 5 255)
   \<and> array_to_uint8 (example_tiles flat_image [0]) (masked_buffer (Float 32) 5 255)
     = Inr (masked_buffer uint8 0 255)
   \<and> build_tile example_rasterio (example_tiles flat_image [0]) 0 0 0 (2 * origin)
     = Inr \<lparr>zoom = 0, column = 0, row = 0, bounds = tile_bounds 0 0 (2 * origin),
            transform = transform_from_bounds (minx (tile_bounds 0 0 (2 * origin)))
              (miny (tile_bounds 0 0 (2 * origin))) (maxx (tile_bounds 0 0 (2 * origin)))
              (maxy (tile_bounds 0 0 (2 * origin))) 256 256,
            window = tile_bounds 0 0 (2 * origin),
            data = masked_buffer uint8 0 255\<rparr>"
proof -
  from array_to_uint8_degenerate [OF flat_fields, of "masked_buffer (Float 32) 5 255"]
  have "array_to_uint8 (example_tiles flat_image [0]) (masked_buffer (Float 32) 5 255)
     = Inr (masked_buffer uint8 0 255)"
    by (simp add: masked_buffer_def constant_buffer_def map3_def fsub_def trunc_def)
  then show ?thesis
    by (simp add: flat_fields flat_read flat_build_tile)
qed

text \<open>
  A source in EPSG:4326 whose values are all 5, reprojected into a plain buffer of fives
  with alpha 255: the three bands of the tile (0, 0, 0) hold no defined sample, and the
  tile is built without an exception.
\<close>

theorem array_to_uint8_degenerate_counterexample:
  "Tiles_init (filling_rasterio 5 255) flat_geographic_image (ListSeq, [0]) 256 ''nearest''
     = Inr flat_geographic_tiles
   \<and> img_min flat_geographic_tiles = Some 5
   \<and> img_max flat_geographic_tiles = Some 5
   \<and> reproject_tile_data (filling_rasterio 5 255) flat_geographic_tiles
       (tile_bounds 0 0 (2 * origin))
       (transform_from_bounds (- origin) (- origin) origin origin 256 256)
     = Inr (constant_buffer (Float 32) 5 255)
   \<and> array_to_uint8 flat_geographic_tiles (constant_buffer (Float 32) 5 255)
     = Inr \<lparr>dtype = uint8,
            chans = replicate 3 (replicate 256 (replicate 256 None))
                    @ [replicate 256 (replicate 256 (Some 255))],
            ma = False\<rparr>
   \<and> build_tile (filling_rasterio 5 255) flat_geographic_tiles 0 0 0 (2 * origin)
     = Inr \<lparr>zoom = 0, column = 0, row = 0, bounds = tile_bounds 0 0 (2 * origin),
            transform = transform_from_bounds (minx (tile_bounds 0 0 (2 * origin)))
              (miny (tile_bounds 0 0 (2 * origin))) (maxx (tile_bounds 0 0 (2 * origin)))
              (maxy (tile_bounds 0 0 (2 * origin))) 256 256,
            window = tile_bounds 0 0 (2 * origin),
            data = \<lparr>dtype = uint8,
                    chans = replicate 3 (replicate 256 (replicate 256 None))
                            @ [replicate 256 (replicate 256 (Some 255))],
                    ma = False\<rparr>\<rparr>"
  by (simp add: flat_geographic_init flat_geographic_fields flat_geographic_reproject
        flat_geographic_uint8 flat_geographic_build_tile)

subsection \<open>Writing the tiles\<close>

lemma mkdir_from_files [simp]: "files (snd (mkdir_from cur cs fs)) = files fs"
  by (induction cur cs fs rule: mkdir_from.induct) (simp_all add: Let_def)

lemma mkdir_from_dirs_mono: "dirs fs \<subseteq> dirs (snd (mkdir_from cur cs fs))"
  by (induction cur cs fs rule: mkdir_from.induct) (auto simp: Let_def)

lemma mkdir_from_created:
  "fst (mkdir_from cur cs fs) = None \<Longrightarrow> 0 < k \<Longrightarrow> k \<le> length cs \<Longrightarrow>
   cur @ take k cs \<in> dirs (snd (mkdir_from cur cs fs))"
proof (induction cur cs fs arbitrary: k rule: mkdir_from.induct)
  case (1 cur fs)
  then show ?case by simp
next
  case (2 cur c cs fs)
  let ?q = "cur @ [c]"
  show ?case
  proof (cases "k = 1")
    case True
    have "?q \<in> dirs (snd (mkdir_from cur (c # cs) fs))"
      using "2.prems"(1) mkdir_from_dirs_mono[of fs ?q cs]
        mkdir_from_dirs_mono[of "fs\<lparr>dirs := insert ?q (dirs fs)\<rparr>" ?q cs]
      by (auto simp: Let_def split: if_splits)
    with True show ?thesis by simp
  next
    case False
    with "2.prems" obtain k' where k': "k = Suc k'" "0 < k'" "k' \<le> length cs"
      by (cases k) auto
    from "2.prems"(1) "2.IH"(1)[of ?q k'] "2.IH"(2)[of ?q k'] k'
    show ?thesis
      by (auto simp: Let_def split: if_splits)
  qed
qed

lemma mkdir_from_idem:
  "fst (mkdir_from cur cs fs) = None \<Longrightarrow>
   mkdir_from cur cs (snd (mkdir_from cur cs fs)) = (None, snd (mkdir_from cur cs fs))"
proof (induction cur cs fs rule: mkdir_from.induct)
  case (1 cur fs)
  then show ?case by simp
next
  case (2 cur c cs fs)
  let ?q = "cur @ [c]"
  let ?r = "snd (mkdir_from cur (c # cs) fs)"
  from "2.prems" have q: "?q \<in> dirs ?r"
    using mkdir_from_created[of cur "c # cs" fs 1] by simp
  from "2.prems" "2.IH" q show ?case
    by (auto simp: Let_def split: if_splits)
qed

lemma mkdir_from_free:
  "\<forall>k. cur @ take k cs \<notin> dom (files fs) \<Longrightarrow> fst (mkdir_from cur cs fs) = None"
proof (induction cur cs fs rule: mkdir_from.induct)
  case (1 cur fs)
  then show ?case by simp
next
  case (2 cur c cs fs)
  let ?q = "cur @ [c]"
  from "2.prems" have nq: "?q \<notin> dom (files fs)"
    by (metis append_Nil take0 take_Suc_Cons)
  have rest: "\<forall>k. ?q @ take k cs \<notin> dom (files fs)"
  proof
    fix k
    from "2.prems" have "cur @ take (Suc k) (c # cs) \<notin> dom (files fs)" by blast
    then show "?q @ take k cs \<notin> dom (files fs)" by simp
  qed
  from nq rest "2.IH" show ?case
    by (auto simp: Let_def)
qed

lemma concat_replicate_const:
  "concat (replicate h (replicate w x)) = replicate (h * w) x"
  by (induction h) (simp_all add: replicate_add)

lemma mean_constant:
  "0 < h \<Longrightarrow> 0 < w \<Longrightarrow> mean (replicate h (replicate w (Some v))) = Some v"
  by (simp add: mean_def Let_def concat_replicate_const sum_list_replicate map_replicate_const[symmetric]
      del: replicate_eq_replicate)

lemma mkdir_from_all_dirs:
  "\<forall>k. 0 < k \<and> k \<le> length cs \<longrightarrow> cur @ take k cs \<in> dirs fs \<Longrightarrow>
   mkdir_from cur cs fs = (None, fs)"
proof (induction cur cs fs rule: mkdir_from.induct)
  case (1 cur fs)
  then show ?case by simp
next
  case (2 cur c cs fs)
  let ?q = "cur @ [c]"
  from "2.prems"[rule_format, of 1] have q: "?q \<in> dirs fs" by simp
  have rest: "\<forall>k. 0 < k \<and> k \<le> length cs \<longrightarrow> ?q @ take k cs \<in> dirs fs"
  proof (intro allI impI)
    fix k
    assume "0 < k \<and> k \<le> length cs"
    with "2.prems"[rule_format, of "Suc k"] show "?q @ take k cs \<in> dirs fs" by simp
  qed
  from q rest "2.IH"(1) show ?case
    by (simp add: Let_def)
qed

lemma mkdir_ok:
  assumes "fst (mkdir p fs) = None" "p \<noteq> []"
  shows "p \<in> dirs (snd (mkdir p fs))" "dirs fs \<subseteq> dirs (snd (mkdir p fs))"
        "files (snd (mkdir p fs)) = files fs"
        "mkdir p (snd (mkdir p fs)) = (None, snd (mkdir p fs))"
proof -
  from assms have "0 < length p" by simp
  with assms(1) mkdir_from_created[of "[]" p fs "length p"]
  show "p \<in> dirs (snd (mkdir p fs))" by (simp add: mkdir_def)
  show "dirs fs \<subseteq> dirs (snd (mkdir p fs))"
    by (simp add: mkdir_def mkdir_from_dirs_mono)
  show "files (snd (mkdir p fs)) = files fs"
    by (simp add: mkdir_def)
  from assms(1) show "mkdir p (snd (mkdir p fs)) = (None, snd (mkdir p fs))"
    by (simp add: mkdir_def mkdir_from_idem)
qed

text \<open>
  Claim C4, as the code has it. When the loop body of \<^verbatim>\<open>write\<close> completes for a tile, the
  directory \<^verbatim>\<open>{out_dir}/{zoom}/{column}\<close> exists whatever the tile's alpha channel is,
  nothing that was a directory is lost, and creating the directory again changes nothing.
  When the mean of the alpha channel is exactly zero the files are those there were;
  otherwise the file \<^verbatim>\<open>{row}.{driver}\<close> in that directory holds the tile's data.
\<close>

theorem write_tile_effect:
  assumes "write_tile out_dir driver px tile fs = (None, fs')"
  shows "let img_dir = out_dir @ [str_int (Tile.zoom tile), str_int (column tile)];
             img_path = img_dir @ [str_int (row tile) @ ''.'' @ driver]
         in img_dir \<in> dirs fs' \<and> dirs fs \<subseteq> dirs fs'
          \<and> mkdir img_dir fs' = (None, fs')
          \<and> files fs' =
              (if mean (last (chans (data tile))) = Some 0 then files fs
               else (files fs)(img_path \<mapsto>
                      \<lparr>fdriver = driver, fwidth = px, fheight = px,
                       fcount = length (chans (data tile)), fdata = data tile\<rparr>))"
proof -
  let ?dir = "out_dir @ [str_int (Tile.zoom tile), str_int (column tile)]"
  let ?m = "snd (mkdir ?dir fs)"
  from assms have ok: "fst (mkdir ?dir fs) = None"
    by (cases "mkdir ?dir fs") (auto simp: write_tile_def Let_def split: option.splits)
  have ne: "?dir \<noteq> []" by simp
  note m = mkdir_ok[OF ok ne]
  from assms ok have fs': "dirs fs' = dirs ?m"
    "files fs' = (if mean (last (chans (data tile))) = Some 0 then files ?m
               else (files ?m)(?dir @ [str_int (row tile) @ ''.'' @ driver] \<mapsto>
                      \<lparr>fdriver = driver, fwidth = px, fheight = px,
                       fcount = length (chans (data tile)), fdata = data tile\<rparr>))"
    by (cases "mkdir ?dir fs"; auto simp: write_tile_def Let_def split: option.splits if_splits)+
  have "\<forall>k. 0 < k \<and> k \<le> length ?dir \<longrightarrow> [] @ take k ?dir \<in> dirs fs'"
    unfolding fs'(1) using mkdir_from_created[of "[]" ?dir fs] ok
    by (simp add: mkdir_def)
  then have idem: "mkdir ?dir fs' = (None, fs')"
    unfolding mkdir_def by (rule mkdir_from_all_dirs)
  from m fs' idem show ?thesis
    by (simp add: Let_def)
qed

lemma str_int_digits: "str_int 0 = ''0''" "str_int 1 = ''1''"
  by (simp_all add: str_int_def str_nat.simps)

lemma world_tile_fields:
  "Tile.zoom (projr (build_tile example_rasterio (example_tiles world_image [0]) 0 c r (2 * origin))) = 0"
  "column (projr (build_tile example_rasterio (example_tiles world_image [0]) 0 c r (2 * origin))) = c"
  "row (projr (build_tile example_rasterio (example_tiles world_image [0]) 0 c r (2 * origin))) = r"
  "chans (data (projr (build_tile example_rasterio (example_tiles world_image [0]) 0 c r (2 * origin))))
     \<noteq> []"
  "length (chans (data (projr (build_tile example_rasterio (example_tiles world_image [0]) 0 c r
     (2 * origin))))) = 4"
  "mean (last (chans (data (projr (build_tile example_rasterio (example_tiles world_image [0])
     0 c r (2 * origin)))))) = Some (if c = 0 \<and> r = 0 then 255 else 0)"
  by (simp_all add: world_build_tile mean_constant)

lemma example_fs_mkdir:
  "mkdir [''out'', ''0'', ''0''] example_fs
     = (None, \<lparr>dirs = {[''out'', ''0'', ''0''], [''out'', ''0''], [''out'']}, files = Map.empty\<rparr>)"
  "mkdir [''out'', ''0'', ''1''] example_fs
     = (None, \<lparr>dirs = {[''out'', ''0'', ''1''], [''out'', ''0''], [''out'']}, files = Map.empty\<rparr>)"
  by (simp_all add: mkdir_def example_fs_def Let_def)

text \<open>
  The tile (0, 1, 0) of the world raster lies outside the raster, so its alpha channel is
  zero everywhere: no file is written for it, and the directory \<^verbatim>\<open>out/0/1\<close>, which was not
  there, is created for it.
\<close>

theorem write_tile_effect_counterexample:
  "mean (last (chans (data (projr (build_tile example_rasterio (example_tiles world_image [0])
      0 1 0 (2 * origin)))))) = Some 0
   \<and> [''out'', ''0'', ''1''] \<notin> dirs example_fs
   \<and> write_tile [''out''] ''PNG'' 256
        (projr (build_tile example_rasterio (example_tiles world_image [0]) 0 1 0 (2 * origin)))
        example_fs
      = (None, \<lparr>dirs = {[''out'', ''0'', ''1''], [''out'', ''0''], [''out'']},
                files = Map.empty\<rparr>)"
  by (simp add: write_tile_def world_tile_fields str_int_digits example_fs_mkdir Let_def)
     (simp add: example_fs_def)

text \<open>The tile (0, 0, 0) of the world raster is written to \<^verbatim>\<open>out/0/0/0.PNG\<close>.\<close>

theorem write_tile_effect_witness:
  "write_tile [''out''] ''PNG'' 256
        (projr (build_tile example_rasterio (example_tiles world_image [0]) 0 0 0 (2 * origin)))
        example_fs
     = (None, snd (write_tile [''out''] ''PNG'' 256
        (projr (build_tile example_rasterio (example_tiles world_image [0]) 0 0 0 (2 * origin)))
        example_fs))
   \<and> [''out'', ''0'', ''0''] \<in> dirs (snd (write_tile [''out''] ''PNG'' 256
        (projr (build_tile example_rasterio (example_tiles world_image [0]) 0 0 0 (2 * origin)))
        example_fs))
   \<and> files (snd (write_tile [''out''] ''PNG'' 256
        (projr (build_tile example_rasterio (example_tiles world_image [0]) 0 0 0 (2 * origin)))
        example_fs)) [''out'', ''0'', ''0'', ''0.PNG'']
      = Some \<lparr>fdriver = ''PNG'', fwidth = 256, fheight = 256, fcount = 4,
              fdata = data (projr (build_tile example_rasterio (example_tiles world_image [0])
                        0 0 0 (2 * origin)))\<rparr>"
proof -
  let ?T = "projr (build_tile example_rasterio (example_tiles world_image [0]) 0 0 0 (2 * origin))"
  have "fst (write_tile [''out''] ''PNG'' 256 ?T example_fs) = None"
    by (simp add: write_tile_def world_tile_fields str_int_digits example_fs_mkdir Let_def)
  then have ok: "write_tile [''out''] ''PNG'' 256 ?T example_fs
      = (None, snd (write_tile [''out''] ''PNG'' 256 ?T example_fs))"
    by (metis prod.collapse)
  from write_tile_effect [OF ok] ok show ?thesis
    by (simp add: Let_def world_tile_fields str_int_digits)
qed

lemma write_loop_Nil [simp]: "write_loop lib self out_dir driver [] fs = (None, [], fs)"
  by (simp add: write_loop.simps gen_next_def)

lemma write_loop_exhausts:
  "write_loop lib self out_dir driver jobs fs = (None, jobs', fs') \<Longrightarrow> jobs' = []"
proof (induction lib self out_dir driver jobs fs rule: write_loop.induct)
  case (1 lib self out_dir driver jobs fs)
  show ?case
  proof (cases "gen_next lib self jobs")
    case None
    then have "jobs = []"
      by (auto simp: gen_next_def split: list.splits sum.splits)
    with "1.prems" show ?thesis
      by simp
  next
    case (Some p)
    obtain res rest where p: "p = (res, rest)" by (cases p)
    show ?thesis
    proof (cases res)
      case (Inl e)
      with Some p "1.prems" show ?thesis
        by (simp add: write_loop.simps[of lib self out_dir driver jobs])
    next
      case (Inr tile)
      obtain e fs1 where w: "write_tile out_dir driver (pixels self) tile fs = (e, fs1)"
        by (cases "write_tile out_dir driver (pixels self) tile fs")
      show ?thesis
      proof (cases e)
        case None
        with Some p Inr w "1.prems"
        have "write_loop lib self out_dir driver rest fs1 = (None, jobs', fs')"
          by (simp add: write_loop.simps[of lib self out_dir driver jobs])
        with "1.IH"[OF Some p[symmetric] Inr w[symmetric] None] show ?thesis
          by simp
      next
        case (Some e')
        with \<open>gen_next lib self jobs = Some p\<close> p Inr w "1.prems" show ?thesis
          by (simp add: write_loop.simps[of lib self out_dir driver jobs])
      qed
    qed
  qed
qed


text \<open>
  Claim C10. The generator is part of the object, and a call of \<^verbatim>\<open>write\<close> that returns
  without an exception leaves it exhausted. Any later call of \<^verbatim>\<open>write\<close> on the object, on
  any file system and with any arguments, makes the checks of the driver and of the
  directory, returns their exception if one fails and nothing otherwise, and leaves the
  object and the file system as they were.
\<close>

theorem write_after_exhaustion:
  fixes lib :: "('p, 'w) rasterio"
  assumes "Tiles_write lib self fs directory driver = (None, self', fs')"
  shows "tiles self' = []
       \<and> Tiles_write lib self' fs2 dir2 drv2
           = ((case drv2 of
                 OtherArg \<Rightarrow> Some TypeError
               | PathArg p \<Rightarrow> Some AttributeError
               | Str d \<Rightarrow>
                   if upper d \<notin> set [''PNG'', ''JPEG''] then Some ValueError
                   else if dir2 \<notin> dirs fs2 then Some FileNotFoundError
                   else None),
              self', fs2)"
proof -
  from assms obtain d where d: "driver = Str d"
    by (cases driver) (simp_all add: Tiles_write_def)
  obtain e jobs' fs1 where w: "write_loop lib self directory d (tiles self) fs = (e, jobs', fs1)"
    by (cases "write_loop lib self directory d (tiles self) fs")
  from assms d w have "e = None" "self' = self\<lparr>tiles := jobs'\<rparr>"
    by (auto simp: Tiles_write_def split: if_splits)
  with w have "jobs' = []"
    using write_loop_exhausts[of lib self directory d "tiles self" fs jobs' fs1] by simp
  with \<open>self' = self\<lparr>tiles := jobs'\<rparr>\<close> have t: "tiles self' = []"
    by simp
  have "self'\<lparr>tiles := []\<rparr> = self'"
    using t by simp
  with t show ?thesis
    by (cases drv2) (simp_all add: Tiles_write_def)
qed

lemma upper_png: "upper ''PNG'' = ''PNG''"
  by (simp add: upper_def upper_char_def)

lemma world_write:
  "fst (Tiles_write example_rasterio (example_tiles world_image [0]) example_fs [''out'']
         (Str ''PNG'')) = None"
  "[''out''] \<in> dirs (snd (snd (Tiles_write example_rasterio (example_tiles world_image [0])
         example_fs [''out''] (Str ''PNG''))))"
  "dom (files (snd (snd (Tiles_write example_rasterio (example_tiles world_image [0])
         example_fs [''out''] (Str ''PNG''))))) = {[''out'', ''0'', ''0'', ''0.PNG'']}"
  by (simp_all add: Tiles_write_def upper_png example_fs_def world_tiles write_loop.simps
        gen_next_def world_build_tile write_tile_def mkdir_def Let_def str_int_digits
        mean_constant world_pixels)

text \<open>
  The world raster at zoom 0, written to \<^verbatim>\<open>out\<close> as PNG and then written again: the second
  call changes nothing, and with the driver TIF it still raises the ValueError.
\<close>

theorem write_after_exhaustion_witness:
  "Tiles_write example_rasterio (example_tiles world_image [0]) example_fs [''out''] (Str ''PNG'')
     = (None,
        fst (snd (Tiles_write example_rasterio (example_tiles world_image [0]) example_fs
                   [''out''] (Str ''PNG''))),
        snd (snd (Tiles_write example_rasterio (example_tiles world_image [0]) example_fs
                   [''out''] (Str ''PNG''))))
   \<and> tiles (fst (snd (Tiles_write example_rasterio (example_tiles world_image [0]) example_fs
                   [''out''] (Str ''PNG'')))) = []
   \<and> Tiles_write example_rasterio
        (fst (snd (Tiles_write example_rasterio (example_tiles world_image [0]) example_fs
                   [''out''] (Str ''PNG''))))
        (snd (snd (Tiles_write example_rasterio (example_tiles world_image [0]) example_fs
                   [''out''] (Str ''PNG''))))
        [''out''] (Str ''PNG'')
     = (None,
        fst (snd (Tiles_write example_rasterio (example_tiles world_image [0]) example_fs
                   [''out''] (Str ''PNG''))),
        snd (snd (Tiles_write example_rasterio (example_tiles world_image [0]) example_fs
                   [''out''] (Str ''PNG''))))
   \<and> fst (Tiles_write example_rasterio
        (fst (snd (Tiles_write example_rasterio (example_tiles world_image [0]) example_fs
                   [''out''] (Str ''PNG''))))
        (snd (snd (Tiles_write example_rasterio (example_tiles world_image [0]) example_fs
                   [''out''] (Str ''PNG''))))
        [''out''] (Str ''TIF'')) = Some ValueError"
proof -
  let ?W = "Tiles_write example_rasterio (example_tiles world_image [0]) example_fs [''out'']
              (Str ''PNG'')"
  have ok: "?W = (None, fst (snd ?W), snd (snd ?W))"
    using world_write(1) by (metis prod.collapse)
  note again = write_after_exhaustion [OF ok]
  have up: "upper ''TIF'' = ''TIF''"
    by (simp add: upper_def upper_char_def)
  from again[of "snd (snd ?W)" "[''out'']" "Str ''PNG''"]
       again[of "snd (snd ?W)" "[''out'']" "Str ''TIF''"] ok
  show ?thesis
    by (simp add: upper_png up world_write(2))
qed

subsection \<open>Equality of two objects\<close>





end
